theory Spec2Isabelle
  imports Main "HOL-Library.Word"
begin

unbundle bit_operations_syntax

section \<open>The DAP transport engine of xdebug (src/src/transport.c)\<close>

text \<open>
  A shallow embedding of the CMSIS-DAP transport: the transfer queue, the
  \<open>DP.SELECT\<close> cache, the status decoder, the single-command layer, the attach
  sequencer and the probe configurator. Machine integers are words (\<open>uint8_t\<close> is
  \<open>8 word\<close>, \<open>uint32_t\<close> and \<open>unsigned\<close> are \<open>32 word\<close>), so every
  \<open>+=\<close> and \<open>-=\<close> of the source wraps as it does in C. Pointers into the two
  arrays of the context are offsets from the array's start. The host is taken to
  be little-endian, as \<open>memcpy\<close> of a \<open>uint32_t\<close> into the packet assumes.
  Diagnostic output (\<open>ERROR\<close>, \<open>printf\<close>, \<open>dump\<close>) is not modelled.
\<close>

type_synonym u8 = "8 word"
type_synonym u32 = "32 word"

subsection \<open>Error codes (transport.h)\<close>

text \<open>
  Modelled from the spec: transport.h, which defines \<open>DC_OK\<close> and the
  \<open>DC_ERR_*\<close> codes, is not part of the sources at hand. The constructors are
  the kinds of the error taxonomy, under the names transport.c uses; the kind
  \<open>InvalidArg\<close> is never named in transport.c. \<open>DC_OK\<close> is the code 0 (the
  source tests \<open>if (dc->qerror)\<close>), every other code is negative (the source
  tests \<open>r < 0\<close>), and the codes are pairwise different.
\<close>

datatype dc_err =
    DC_OK
  | DC_ERR_FAILED
  | DC_ERR_INVALID_ARG
  | DC_ERR_IO
  | DC_ERR_OFFLINE
  | DC_ERR_PROTOCOL
  | DC_ERR_TIMEOUT
  | DC_ERR_SWD_FAULT
  | DC_ERR_SWD_PARITY
  | DC_ERR_SWD_SILENT
  | DC_ERR_SWD_BOGUS
  | DC_ERR_MATCH
  | DC_ERR_UNSUPPORTED
  | DC_ERR_REMOTE

subsection \<open>Protocol constants (cmsis-dap-protocol.h, arm-debug.h)\<close>

text \<open>
  Modelled from the spec: cmsis-dap-protocol.h is not part of the sources at
  hand. The opcodes and the bits of a transfer request byte are those of the
  specification's section on external interfaces: bit 0 is AP (else DP), bit 1
  is RD (else WR), bits 2..3 are the register address, bit 4 is ValueMatch,
  bit 5 is MatchMask.
\<close>

definition DAP_Info :: u8 where "DAP_Info = 0x00"
definition DAP_Connect :: u8 where "DAP_Connect = 0x02"
definition DAP_TransferConfigure :: u8 where "DAP_TransferConfigure = 0x04"
definition DAP_Transfer :: u8 where "DAP_Transfer = 0x05"
definition DAP_SWD_Configure :: u8 where "DAP_SWD_Configure = 0x13"
definition DAP_SWD_Sequence :: u8 where "DAP_SWD_Sequence = 0x1D"

definition XFER_DP :: u32 where "XFER_DP = 0x00"
definition XFER_AP :: u32 where "XFER_AP = 0x01"
definition XFER_WR :: u32 where "XFER_WR = 0x00"
definition XFER_RD :: u32 where "XFER_RD = 0x02"
definition XFER_00 :: u32 where "XFER_00 = 0x00"
definition XFER_ValueMatch :: u32 where "XFER_ValueMatch = 0x10"
definition XFER_MatchMask :: u32 where "XFER_MatchMask = 0x20"

text \<open>
  The remaining names of the two absent headers have no value in the
  specification. They are parameters of the model: every function that uses
  one takes the record \<open>h\<close> of them, and every theorem holds for whatever the
  headers define.
\<close>

record hdr =
  RSP_ACK_MASK :: u32
  RSP_ACK_OK :: u32
  RSP_ACK_WAIT :: u32
  RSP_ACK_FAULT :: u32
  RSP_ProtocolError :: u32
  RSP_ValueMismatch :: u32
  DP_SELECT :: u32
  DP_SELECT_DPBANK :: "u32 \<Rightarrow> u32"
  DP_SELECT_APBANK :: "u32 \<Rightarrow> u32"
  DP_SELECT_AP :: "u32 \<Rightarrow> u32"
  DC_MULTIDROP :: u32
  PORT_SWD :: u8
  CFG_Turnaround_1 :: u32
  DI_Capabilities :: u32
  DI_UART_RX_Buffer_Size :: u32
  DI_UART_TX_Buffer_Size :: u32
  DI_SWO_Trace_Buffer_Size :: u32
  DI_Max_Packet_Count :: u32
  DI_Max_Packet_Size :: u32

text \<open>
  One instance, at which the theorems below are evaluated: the values the
  CMSIS-DAP and ADIv5 documents give these names, with the three field macros
  placing their argument as the specification's register-cache rules describe
  them (the DP bank in bits 3..0, the AP bank in bits 7..4, the AP in bits
  31..24, where \<open>dc_q_ap_sel\<close> has already shifted it).
\<close>

definition cmsis_hdr :: hdr where
  "cmsis_hdr = \<lparr>
     RSP_ACK_MASK = 0x07, RSP_ACK_OK = 0x01, RSP_ACK_WAIT = 0x02, RSP_ACK_FAULT = 0x04,
     RSP_ProtocolError = 0x08, RSP_ValueMismatch = 0x10,
     DP_SELECT = 0x08,
     DP_SELECT_DPBANK = (\<lambda>n. n AND 0xF),
     DP_SELECT_APBANK = (\<lambda>n. push_bit 4 (n AND 0xF)),
     DP_SELECT_AP = (\<lambda>n. n AND 0xFF000000),
     DC_MULTIDROP = 1,
     PORT_SWD = 0x01,
     CFG_Turnaround_1 = 0x00,
     DI_Capabilities = 0xF0,
     DI_UART_RX_Buffer_Size = 0xFB,
     DI_UART_TX_Buffer_Size = 0xFC,
     DI_SWO_Trace_Buffer_Size = 0xFD,
     DI_Max_Packet_Count = 0xFE,
     DI_Max_Packet_Size = 0xFF \<rparr>"

definition INVALID :: u32 where "INVALID = 0xFFFFFFFF"

subsection \<open>The USB carrier (usb.h)\<close>

text \<open>
  Modelled from the spec: usb.h and its implementation are not part of the
  sources at hand; the specification describes an opaque handle that offers
  \<open>write(bytes) -> count\<close> and \<open>read(buf) -> count\<close>. The handle's state is
  what the probe will answer: the counts the coming writes return, the results
  of the coming reads (\<open>None\<close> for a negative count, \<open>Some bs\<close> for the bytes
  delivered), and the log of every buffer handed to \<open>usb_write\<close>. A carrier
  whose script has run out fails every call. A read delivers at most the
  \<open>len\<close> bytes asked for.
\<close>

record usb_handle =
  wr_script :: "int list"
  rd_script :: "u8 list option list"
  wr_log :: "u8 list list"

definition usb_write :: "usb_handle \<Rightarrow> u8 list \<Rightarrow> int \<times> usb_handle" where
  "usb_write u bs =
     (case wr_script u of
        [] \<Rightarrow> (- 1, u\<lparr>wr_log := wr_log u @ [bs]\<rparr>)
      | r # rs \<Rightarrow> (r, u\<lparr>wr_script := rs, wr_log := wr_log u @ [bs]\<rparr>))"

definition usb_read :: "usb_handle \<Rightarrow> nat \<Rightarrow> u8 list option \<times> usb_handle" where
  "usb_read u len =
     (case rd_script u of
        [] \<Rightarrow> (None, u)
      | r # rs \<Rightarrow> (map_option (take len) r, u\<lparr>rd_script := rs\<rparr>))"

subsection \<open>The debug context\<close>

text \<open>
  \<open>struct debug_context\<close>. \<open>txbuf\<close> is the array \<open>uint8_t txbuf[1024]\<close> and
  \<open>rxptr\<close> the array \<open>uint32_t* rxptr[256]\<close>, both as functions of the index;
  \<open>txnext\<close> and \<open>rxnext\<close> are the offsets of the two cursors from the start
  of their arrays. Three fields are not fields of the struct: \<open>mem\<close> is the
  caller's memory that the queued response pointers point into, \<open>uninit\<close> is
  the indeterminate content of an uninitialised local buffer, and \<open>oob\<close>
  records that a store was made past the end of \<open>txbuf\<close> or \<open>rxptr\<close>, which
  is undefined behaviour in C.
\<close>

record DC =
  usb :: usb_handle
  status :: u32
  max_packet_count :: u32
  max_packet_size :: u32
  cfg_idle :: u32
  cfg_wait :: u32
  cfg_match :: u32
  cfg_mask :: u32
  dp_select :: u32
  dp_select_cache :: u32
  txbuf :: "nat \<Rightarrow> u8"
  rxptr :: "nat \<Rightarrow> nat"
  txnext :: nat
  rxnext :: nat
  txavail :: u32
  rxavail :: u32
  qerror :: dc_err
  mem :: "nat \<Rightarrow> u32"
  uninit :: "nat \<Rightarrow> u8"
  oob :: bool

definition tx_store :: "DC \<Rightarrow> nat \<Rightarrow> u8 \<Rightarrow> DC" where
  "tx_store dc i v =
     (if i < 1024 then dc\<lparr>txbuf := (txbuf dc)(i := v)\<rparr> else dc\<lparr>oob := True\<rparr>)"

definition rx_store :: "DC \<Rightarrow> nat \<Rightarrow> nat \<Rightarrow> DC" where
  "rx_store dc i p =
     (if i < 256 then dc\<lparr>rxptr := (rxptr dc)(i := p)\<rparr> else dc\<lparr>oob := True\<rparr>)"

text \<open>The four bytes of a \<open>uint32_t\<close> in memory order, and back.\<close>

definition le_bytes :: "u32 \<Rightarrow> u8 list" where
  "le_bytes v = [ucast v, ucast (drop_bit 8 v), ucast (drop_bit 16 v), ucast (drop_bit 24 v)]"

definition le_word :: "u8 \<Rightarrow> u8 \<Rightarrow> u8 \<Rightarrow> u8 \<Rightarrow> u32" where
  "le_word b0 b1 b2 b3 =
     ucast b0 OR push_bit 8 (ucast b1) OR push_bit 16 (ucast b2) OR push_bit 24 (ucast b3)"

subsection \<open>The transfer queue\<close>

definition dc_q_clear :: "DC \<Rightarrow> DC" where
  "dc_q_clear dc =
     dc\<lparr>txnext := 3,
        rxnext := 0,
        txavail := max_packet_size dc - 3,
        rxavail := max_packet_size dc - 3,
        qerror := DC_OK,
        dp_select_cache := INVALID,
        cfg_mask := INVALID,
        txbuf := (txbuf dc)(0 := DAP_Transfer, 1 := 0, 2 := 0)\<rparr>"

definition dc_q_init :: "DC \<Rightarrow> DC" where
  "dc_q_init dc = dc_q_clear dc"

text \<open>The \<open>switch\<close> on the ACK bits is the chain of its cases in source order.\<close>

definition dc_decode_status :: "hdr \<Rightarrow> u32 \<Rightarrow> dc_err" where
  "dc_decode_status h n =
     (let ack = n AND RSP_ACK_MASK h in
      if n AND RSP_ProtocolError h \<noteq> 0 then DC_ERR_SWD_PARITY
      else if ack = RSP_ACK_OK h then
        (if n AND RSP_ValueMismatch h \<noteq> 0 then DC_ERR_MATCH else DC_OK)
      else if ack = RSP_ACK_WAIT h then DC_ERR_TIMEOUT
      else if ack = RSP_ACK_FAULT h then DC_ERR_SWD_FAULT
      else if ack = RSP_ACK_MASK h then DC_ERR_SWD_SILENT
      else DC_ERR_SWD_BOGUS)"

text \<open>
  The response buffer of \<open>dc_q_exec\<close>: 1024 bytes of \<open>0xEE\<close> with the bytes
  read laid over its start.
\<close>

definition rxbuf_of :: "u8 list \<Rightarrow> nat \<Rightarrow> u8" where
  "rxbuf_of bs i = (if i < length bs then bs ! i else 0xEE)"

text \<open>The scatter loop: response word \<open>i\<close> is copied to \<open>*dc->rxptr[i]\<close>.\<close>

definition scatter :: "DC \<Rightarrow> (nat \<Rightarrow> u8) \<Rightarrow> nat \<Rightarrow> DC" where
  "scatter dc rxbuf n =
     fold (\<lambda>i d. d\<lparr>mem := (mem d)(rxptr d i :=
             le_word (rxbuf (3 + 4 * i)) (rxbuf (4 + 4 * i)) (rxbuf (5 + 4 * i)) (rxbuf (6 + 4 * i)))\<rparr>)
          [0..<n] dc"

definition dc_q_exec :: "hdr \<Rightarrow> DC \<Rightarrow> dc_err \<times> DC" where
  "dc_q_exec h dc =
     (if qerror dc \<noteq> DC_OK then (qerror dc, dc_q_clear dc)
      else if txbuf dc 2 = 0 then (DC_OK, dc)
      else
        (case usb_write (usb dc) (map (txbuf dc) [0..<txnext dc]) of (w, u1) \<Rightarrow>
           if w \<noteq> int (txnext dc) then (DC_ERR_IO, dc\<lparr>usb := u1\<rparr>)
           else
             (case usb_read u1 (3 + rxnext dc * 4) of
                (None, u2) \<Rightarrow> (DC_ERR_IO, dc\<lparr>usb := u2\<rparr>)
              | (Some bs, u2) \<Rightarrow>
                  if length bs < 3 \<or> rxbuf_of bs 0 \<noteq> DAP_Transfer
                  then (DC_ERR_PROTOCOL, dc\<lparr>usb := u2\<rparr>)
                  else
                    (let r = dc_decode_status h (ucast (rxbuf_of bs 2));
                         d = (if r = DC_OK
                              then scatter (dc\<lparr>usb := u2\<rparr>) (rxbuf_of bs) ((length bs - 3) div 4)
                              else dc\<lparr>usb := u2\<rparr>)
                     in (r, dc_q_clear d)))))"

text \<open>
  \<open>dc_q_raw_rd\<close> and \<open>dc_q_raw_wr\<close> first make room, then append. The
  appending halves are named apart, since the source reaches them both with and
  without a flush.
\<close>

definition raw_rd_append :: "DC \<Rightarrow> u32 \<Rightarrow> nat \<Rightarrow> DC" where
  "raw_rd_append dc req val =
     (let d1 = tx_store dc (txnext dc) (ucast req);
          d2 = rx_store d1 (rxnext d1) val;
          d3 = d2\<lparr>txnext := txnext d2 + 1, rxnext := rxnext d2 + 1\<rparr>;
          d4 = d3\<lparr>txbuf := (txbuf d3)(2 := txbuf d3 2 + 1)\<rparr>
      in d4\<lparr>txavail := txavail d4 - 1, rxavail := rxavail d4 - 4\<rparr>)"

definition dc_q_raw_rd :: "hdr \<Rightarrow> DC \<Rightarrow> u32 \<Rightarrow> nat \<Rightarrow> DC" where
  "dc_q_raw_rd h dc req val =
     (if txavail dc < 1 \<or> rxavail dc < 4 then
        (case dc_q_exec h dc of (r, d) \<Rightarrow>
           if r \<noteq> DC_OK then d\<lparr>qerror := r\<rparr>
           else raw_rd_append (d\<lparr>qerror := r\<rparr>) req val)
      else raw_rd_append dc req val)"

definition raw_wr_append :: "DC \<Rightarrow> u32 \<Rightarrow> u32 \<Rightarrow> DC" where
  "raw_wr_append dc req val =
     (let d1 = tx_store dc (txnext dc) (ucast req);
          d2 = tx_store d1 (txnext dc + 1) (le_bytes val ! 0);
          d3 = tx_store d2 (txnext dc + 2) (le_bytes val ! 1);
          d4 = tx_store d3 (txnext dc + 3) (le_bytes val ! 2);
          d5 = tx_store d4 (txnext dc + 4) (le_bytes val ! 3);
          d6 = d5\<lparr>txnext := txnext d5 + 5, txavail := txavail d5 - 5\<rparr>
      in d6\<lparr>txbuf := (txbuf d6)(2 := txbuf d6 2 + 1)\<rparr>)"

definition dc_q_raw_wr :: "hdr \<Rightarrow> DC \<Rightarrow> u32 \<Rightarrow> u32 \<Rightarrow> DC" where
  "dc_q_raw_wr h dc req val =
     (if txavail dc < 5 then
        (case dc_q_exec h dc of (r, d) \<Rightarrow>
           if r \<noteq> DC_OK then d\<lparr>qerror := r\<rparr>
           else raw_wr_append (d\<lparr>qerror := r\<rparr>) req val)
      else raw_wr_append dc req val)"

subsection \<open>The register cache\<close>

definition dc_q_dp_sel :: "hdr \<Rightarrow> DC \<Rightarrow> u32 \<Rightarrow> DC" where
  "dc_q_dp_sel h dc dpaddr =
     (if dpaddr AND 0xFFFFFF03 \<noteq> 0 then dc\<lparr>qerror := DC_ERR_FAILED\<rparr>
      else if dpaddr AND 0xF \<noteq> 0x4 then dc
      else
        (let msk = DP_SELECT_DPBANK h 0xF;
             addr = DP_SELECT_DPBANK h (drop_bit 4 dpaddr);
             select = (dp_select dc AND msk) OR addr
         in if select \<noteq> dp_select_cache dc
            then dc_q_raw_wr h (dc\<lparr>dp_select_cache := select\<rparr>)
                   (XFER_DP OR XFER_WR OR DP_SELECT h) select
            else dc))"

definition dc_q_ap_sel :: "hdr \<Rightarrow> DC \<Rightarrow> u32 \<Rightarrow> DC" where
  "dc_q_ap_sel h dc apaddr =
     (if apaddr AND 0xFFFF0003 \<noteq> 0 then dc\<lparr>qerror := DC_ERR_FAILED\<rparr>
      else
        (let select = DP_SELECT_AP h (push_bit 16 (apaddr AND 0xFF00))
                      OR DP_SELECT_APBANK h (drop_bit 4 apaddr)
         in if select \<noteq> dp_select_cache dc
            then dc_q_raw_wr h (dc\<lparr>dp_select_cache := select\<rparr>)
                   (XFER_DP OR XFER_WR OR DP_SELECT h) select
            else dc))"

subsection \<open>Queued DP and AP accesses\<close>

definition dc_q_dp_rd :: "hdr \<Rightarrow> DC \<Rightarrow> u32 \<Rightarrow> nat \<Rightarrow> DC" where
  "dc_q_dp_rd h dc dpaddr val =
     (if qerror dc \<noteq> DC_OK then dc
      else dc_q_raw_rd h (dc_q_dp_sel h dc dpaddr) (XFER_DP OR XFER_RD OR (dpaddr AND 0x0C)) val)"

definition dc_q_dp_wr :: "hdr \<Rightarrow> DC \<Rightarrow> u32 \<Rightarrow> u32 \<Rightarrow> DC" where
  "dc_q_dp_wr h dc dpaddr val =
     (if qerror dc \<noteq> DC_OK then dc
      else dc_q_raw_wr h (dc_q_dp_sel h dc dpaddr) (XFER_DP OR XFER_WR OR (dpaddr AND 0x0C)) val)"

definition dc_q_ap_rd :: "hdr \<Rightarrow> DC \<Rightarrow> u32 \<Rightarrow> nat \<Rightarrow> DC" where
  "dc_q_ap_rd h dc apaddr val =
     (if qerror dc \<noteq> DC_OK then dc
      else dc_q_raw_rd h (dc_q_ap_sel h dc apaddr) (XFER_AP OR XFER_RD OR (apaddr AND 0x0C)) val)"

definition dc_q_ap_wr :: "hdr \<Rightarrow> DC \<Rightarrow> u32 \<Rightarrow> u32 \<Rightarrow> DC" where
  "dc_q_ap_wr h dc apaddr val =
     (if qerror dc \<noteq> DC_OK then dc
      else dc_q_raw_wr h (dc_q_ap_sel h dc apaddr) (XFER_AP OR XFER_WR OR (apaddr AND 0x0C)) val)"

definition dc_q_set_mask :: "hdr \<Rightarrow> DC \<Rightarrow> u32 \<Rightarrow> DC" where
  "dc_q_set_mask h dc msk =
     (if qerror dc \<noteq> DC_OK then dc
      else if cfg_mask dc = msk then dc
      else dc_q_raw_wr h (dc\<lparr>cfg_mask := msk\<rparr>) (XFER_WR OR XFER_MatchMask) msk)"

definition dc_q_ap_match :: "hdr \<Rightarrow> DC \<Rightarrow> u32 \<Rightarrow> u32 \<Rightarrow> DC" where
  "dc_q_ap_match h dc apaddr val =
     (if qerror dc \<noteq> DC_OK then dc
      else dc_q_raw_wr h (dc_q_ap_sel h dc apaddr)
             (XFER_AP OR XFER_RD OR XFER_ValueMatch OR (apaddr AND 0x0C)) val)"

definition dc_q_dp_match :: "hdr \<Rightarrow> DC \<Rightarrow> u32 \<Rightarrow> u32 \<Rightarrow> DC" where
  "dc_q_dp_match h dc apaddr val =
     (if qerror dc \<noteq> DC_OK then dc
      else dc_q_raw_wr h (dc_q_ap_sel h dc apaddr)
             (XFER_DP OR XFER_RD OR XFER_ValueMatch OR (apaddr AND 0x0C)) val)"

subsection \<open>Single commands\<close>

text \<open>
  \<open>dap_cmd\<close> sends \<open>tx\<close> and reads at most \<open>rxlen\<close> bytes into \<open>rx\<close>;
  the bytes read overwrite the start of \<open>rx\<close> and the rest of it stays as it
  was. The result is the count read (\<open>Inr\<close>) or an error code (\<open>Inl\<close>), with
  the buffer. Every caller passes at least two bytes to send.
\<close>

definition dap_cmd :: "DC \<Rightarrow> u8 list \<Rightarrow> u8 list \<Rightarrow> nat \<Rightarrow> (dc_err + nat) \<times> u8 list \<times> DC" where
  "dap_cmd dc tx rx rxlen =
     (let cmd = tx ! 0 in
      case usb_write (usb dc) tx of (w, u1) \<Rightarrow>
        if w \<noteq> int (length tx) then (Inl DC_ERR_IO, rx, dc\<lparr>usb := u1\<rparr>)
        else
          (case usb_read u1 rxlen of
             (None, u2) \<Rightarrow> (Inl DC_ERR_IO, rx, dc\<lparr>usb := u2\<rparr>)
           | (Some bs, u2) \<Rightarrow>
               if length bs < 1 then (Inl DC_ERR_IO, rx, dc\<lparr>usb := u2\<rparr>)
               else
                 (let rx' = bs @ drop (length bs) rx in
                  if rx' ! 0 \<noteq> cmd then (Inl DC_ERR_UNSUPPORTED, rx', dc\<lparr>usb := u2\<rparr>)
                  else (Inr (length bs), rx', dc\<lparr>usb := u2\<rparr>))))"

definition dap_cmd_std :: "DC \<Rightarrow> u8 list \<Rightarrow> nat \<Rightarrow> nat \<Rightarrow> dc_err \<times> DC" where
  "dap_cmd_std dc io txlen rxlen =
     (case dap_cmd dc (take txlen io) io rxlen of
        (Inl e, io', d) \<Rightarrow> (e, d)
      | (Inr sz, io', d) \<Rightarrow> if io' ! 1 \<noteq> 0 then (DC_ERR_REMOTE, d) else (DC_OK, d))"

definition dap_connect :: "hdr \<Rightarrow> DC \<Rightarrow> dc_err \<times> DC" where
  "dap_connect h dc = dap_cmd_std dc [DAP_Connect, PORT_SWD h] 2 2"

definition dap_swd_configure :: "DC \<Rightarrow> u32 \<Rightarrow> dc_err \<times> DC" where
  "dap_swd_configure dc cfg = dap_cmd_std dc [DAP_SWD_Configure, ucast cfg] 2 2"

text \<open>\<open>if (x > hi) x = hi;\<close>\<close>

definition clamp :: "u32 \<Rightarrow> u32 \<Rightarrow> u32" where
  "clamp hi x = (if x > hi then hi else x)"

definition dap_xfer_config :: "DC \<Rightarrow> u32 \<Rightarrow> u32 \<Rightarrow> u32 \<Rightarrow> dc_err \<times> DC" where
  "dap_xfer_config dc idle0 wait0 match0 =
     (let idle = clamp 255 idle0;
          wait = clamp 65535 wait0;
          match = clamp 65535 match0
      in if cfg_idle dc = idle \<and> cfg_wait dc = wait \<and> cfg_match dc = match then (DC_OK, dc)
         else dap_cmd_std (dc\<lparr>cfg_idle := idle, cfg_wait := wait, cfg_match := match\<rparr>)
                [DAP_TransferConfigure, ucast idle, ucast wait, ucast (drop_bit 8 wait),
                 ucast match, ucast (drop_bit 8 match)] 6 2)"

definition dc_set_match_retry :: "DC \<Rightarrow> u32 \<Rightarrow> DC" where
  "dc_set_match_retry dc num =
     (if qerror dc \<noteq> DC_OK then dc
      else snd (dap_xfer_config dc (cfg_idle dc) (cfg_wait dc) num))"

text \<open>
  \<open>dap_get_info\<close> has a local buffer of 258 bytes, of which it sets the first
  two; the payload it copies out is \<open>buf[1]\<close> bytes from offset 2, whether the
  probe delivered that many or not. The result is the payload (its length is
  the count the source returns) or an error code.
\<close>

definition dap_get_info :: "DC \<Rightarrow> u32 \<Rightarrow> nat \<Rightarrow> nat \<Rightarrow> (dc_err + u8 list) \<times> DC" where
  "dap_get_info dc di minlen maxlen =
     (let buf = [DAP_Info, ucast di] @ map (uninit dc) [2..<258] in
      case usb_write (usb dc) (take 2 buf) of (w, u1) \<Rightarrow>
        if w \<noteq> 2 then (Inl DC_ERR_IO, dc\<lparr>usb := u1\<rparr>)
        else
          (case usb_read u1 258 of
             (None, u2) \<Rightarrow> (Inl DC_ERR_PROTOCOL, dc\<lparr>usb := u2\<rparr>)
           | (Some bs, u2) \<Rightarrow>
               (let buf' = bs @ drop (length bs) buf in
                if length bs < 2 \<or> buf' ! 0 \<noteq> DAP_Info
                then (Inl DC_ERR_PROTOCOL, dc\<lparr>usb := u2\<rparr>)
                else if unat (buf' ! 1) < minlen \<or> unat (buf' ! 1) > maxlen
                then (Inl DC_ERR_PROTOCOL, dc\<lparr>usb := u2\<rparr>)
                else (Inr (take (unat (buf' ! 1)) (drop 2 buf')), dc\<lparr>usb := u2\<rparr>))))"

subsection \<open>The attach sequence\<close>

definition attach_cmd :: "u8 list" where
  "attach_cmd =
     [DAP_SWD_Sequence, 5,
      0x00, 0xFF, 0xFF, 0xFF, 0xFF, 0xFF, 0xFF, 0xFF, 0xFF,
      0x00, 0x9E, 0xE7, 0xFF, 0xFF, 0x92, 0xF3, 0x09, 0x62,
      0x00, 0x95, 0x2D, 0x85, 0x86, 0xE9, 0xAF, 0xDD, 0xE3,
      0x00, 0xA2, 0x0E, 0xBC, 0x19, 0xA0, 0xF1, 0xFF, 0xFF,
      0x30, 0xFF, 0xFF, 0xFF, 0xFF, 0xFF, 0x0F,
      0x08, 0x99,
      0x85,
      0x28, 0x00, 0x00, 0x00, 0x00, 0x00]"

text \<open>
  The compiler's \<open>__builtin_parity\<close>: the number of set bits of its argument,
  modulo 2.
\<close>

definition builtin_parity :: "u32 \<Rightarrow> nat" where
  "builtin_parity x = length (filter (bit x) [0..<32]) mod 2"

text \<open>
  The local copy \<open>cmd\<close> that \<open>dc_attach\<close> patches for a multidrop target:
  \<open>memcpy(cmd, attach_cmd, 54); cmd[1] = 8; memcpy(cmd + 49, &tgt, 4);
  cmd[53] = __builtin_parity(tgt)\<close>.
\<close>

definition multidrop_cmd :: "u32 \<Rightarrow> u8 list" where
  "multidrop_cmd tgt =
     (take 54 attach_cmd)
       [1 := 8,
        49 := le_bytes tgt ! 0, 50 := le_bytes tgt ! 1,
        51 := le_bytes tgt ! 2, 52 := le_bytes tgt ! 3,
        53 := of_nat (builtin_parity tgt)]"

text \<open>
  The results of the two \<open>dap_cmd\<close> calls are dropped, as in the source;
  \<open>rsp\<close> is an uninitialised local that is never read.
\<close>

definition dc_attach :: "hdr \<Rightarrow> DC \<Rightarrow> u32 \<Rightarrow> u32 \<Rightarrow> nat \<Rightarrow> dc_err \<times> DC" where
  "dc_attach h dc flags tgt idcode =
     (let rsp = map (uninit dc) [0..<3];
          d1 = (if flags AND DC_MULTIDROP h \<noteq> 0
                then snd (snd (dap_cmd dc (take 54 (multidrop_cmd tgt)) rsp 3))
                else snd (snd (dap_cmd dc (take 45 attach_cmd) rsp 2)));
          d2 = dc_q_init d1;
          d3 = dc_q_raw_rd h d2 (XFER_DP OR XFER_RD OR XFER_00) idcode
      in dc_q_exec h d3)"

subsection \<open>Probe configuration and context creation\<close>

definition dap_configure :: "hdr \<Rightarrow> DC \<Rightarrow> dc_err \<times> DC" where
  "dap_configure h dc =
     (let d1 = dc\<lparr>cfg_idle := INVALID, cfg_wait := INVALID, cfg_match := INVALID,
                   cfg_mask := INVALID, max_packet_count := 1, max_packet_size := 64\<rparr>;
          d2 = dc_q_clear d1;
          d3 = fold (\<lambda>n d. snd (dap_get_info d (of_nat n) 0 255)) [0..<10] d2;
          d4 = snd (dap_get_info d3 (DI_Capabilities h) 1 2);
          d5 = snd (dap_get_info d4 (DI_UART_RX_Buffer_Size h) 4 4);
          d6 = snd (dap_get_info d5 (DI_UART_TX_Buffer_Size h) 4 4);
          d7 = snd (dap_get_info d6 (DI_SWO_Trace_Buffer_Size h) 4 4);
          d8 = (case dap_get_info d7 (DI_Max_Packet_Count h) 1 1 of
                  (Inr [n8], d) \<Rightarrow> d\<lparr>max_packet_count := ucast n8\<rparr>
                | (_, d) \<Rightarrow> d);
          d9 = (case dap_get_info d8 (DI_Max_Packet_Size h) 2 2 of
                  (Inr [b0, b1], d) \<Rightarrow> d\<lparr>max_packet_size := le_word b0 b1 0 0\<rparr>
                | (_, d) \<Rightarrow> d)
      in if max_packet_count d9 < 1 \<or> max_packet_size d9 < 64 then (DC_ERR_PROTOCOL, d9)
         else
           (let d10 = d9\<lparr>dp_select_cache := INVALID\<rparr>;
                d11 = (if max_packet_size d10 > 1024 then d10\<lparr>max_packet_size := 1024\<rparr> else d10);
                d12 = snd (dap_connect h d11);
                d13 = snd (dap_swd_configure d12 (CFG_Turnaround_1 h));
                d14 = snd (dap_xfer_config d13 8 64 0)
            in (DC_OK, d14)))"

text \<open>
  What \<open>dc_create\<close> meets: whether \<open>calloc\<close> succeeds, which of the two
  probes \<open>usb_open\<close> finds (by vendor id, product id and interface), and the
  memory around the context.
\<close>

record host =
  calloc_ok :: bool
  usb_open :: "nat \<Rightarrow> nat \<Rightarrow> nat \<Rightarrow> usb_handle option"
  host_mem :: "nat \<Rightarrow> u32"
  host_uninit :: "nat \<Rightarrow> u8"

definition usb_connect :: "host \<Rightarrow> usb_handle option" where
  "usb_connect hs =
     (case usb_open hs 0x1fc9 0x0143 0 of
        Some u \<Rightarrow> Some u
      | None \<Rightarrow> usb_open hs 0x2e8a 0x000c 42)"

text \<open>The context \<open>calloc\<close> returns: every field zero, the cursors null.\<close>

definition calloc_DC :: "host \<Rightarrow> usb_handle \<Rightarrow> DC" where
  "calloc_DC hs u =
     \<lparr>usb = u, status = 0, max_packet_count = 0, max_packet_size = 0,
      cfg_idle = 0, cfg_wait = 0, cfg_match = 0, cfg_mask = 0,
      dp_select = 0, dp_select_cache = 0,
      txbuf = (\<lambda>i. 0), rxptr = (\<lambda>i. 0), txnext = 0, rxnext = 0,
      txavail = 0, rxavail = 0, qerror = DC_OK,
      mem = host_mem hs, uninit = host_uninit hs, oob = False\<rparr>"

definition dc_create :: "hdr \<Rightarrow> host \<Rightarrow> dc_err \<times> DC option" where
  "dc_create h hs =
     (if \<not> calloc_ok hs then (DC_ERR_FAILED, None)
      else
        (case usb_connect hs of
           None \<Rightarrow> (DC_ERR_OFFLINE, None)
         | Some u \<Rightarrow>
             (case dap_configure h (calloc_DC hs u) of (r, d) \<Rightarrow>
                if r \<noteq> DC_OK then (r, None) else (r, Some d))))"

subsection \<open>Concrete inputs\<close>

text \<open>
  A carrier on which every transfer fails (a probe unplugged after it was
  opened), a host that finds it, and the context \<open>calloc\<close> gives there.
\<close>

definition dead_usb :: usb_handle where
  "dead_usb = \<lparr>wr_script = [], rd_script = [], wr_log = []\<rparr>"

definition host0 :: host where
  "host0 = \<lparr>calloc_ok = True, usb_open = (\<lambda>vid pid ifc. Some dead_usb),
            host_mem = (\<lambda>a. 0), host_uninit = (\<lambda>i. 0)\<rparr>"

definition dc0 :: DC where
  "dc0 = calloc_DC host0 dead_usb"

text \<open>
  The empty queue of a probe with 64-byte packets, the smallest size
  \<open>dap_configure\<close> lets through.
\<close>

definition dc64 :: DC where
  "dc64 = dc_q_init (dc0\<lparr>max_packet_size := 64\<rparr>)"

text \<open>
  A probe that accepts every write, answers the ten \<open>Info\<close> entries and
  the three buffer-size queries with empty payloads, reports its capabilities,
  a packet count of 1 and a packet size of 1024, and then rejects \<open>Connect\<close>,
  \<open>SWD_Configure\<close> and \<open>TransferConfigure\<close> with the status \<open>0xFF\<close>; the
  host that finds it; and the context that \<open>dap_configure\<close> leaves there.
\<close>

definition probe_usb :: usb_handle where
  "probe_usb =
     \<lparr>wr_script = replicate 18 2 @ [6],
      rd_script = replicate 10 (Some [0x00, 0x00]) @
        [Some [0x00, 0x01, 0x01],
         Some [0x00, 0x00], Some [0x00, 0x00], Some [0x00, 0x00],
         Some [0x00, 0x01, 0x01],
         Some [0x00, 0x02, 0x00, 0x04],
         Some [0x02, 0xFF], Some [0x13, 0xFF], Some [0x04, 0xFF]],
      wr_log = []\<rparr>"

definition host1 :: host where
  "host1 = \<lparr>calloc_ok = True, usb_open = (\<lambda>vid pid ifc. Some probe_usb),
            host_mem = (\<lambda>a. 0), host_uninit = (\<lambda>i. 0)\<rparr>"

definition created :: DC where
  "created = snd (dap_configure cmsis_hdr (calloc_DC host1 probe_usb))"

text \<open>
  The empty queue on that context: 1024-byte packets, the largest size
  \<open>dap_configure\<close> lets through.
\<close>

definition dc1024 :: DC where
  "dc1024 = dc_q_init created"

text \<open>
  A batch of \<open>k\<close> reads of DP register 0 (\<open>DP.IDR\<close>) into successive words
  of the caller's memory, and a batch of \<open>k\<close> writes of 0 to DP register 0,
  each appended to the queue \<open>dc\<close> through the public \<open>dc_q_dp_rd\<close> and
  \<open>dc_q_dp_wr\<close>.
\<close>

definition reads :: "nat \<Rightarrow> DC \<Rightarrow> DC" where
  "reads k dc = fold (\<lambda>i d. dc_q_dp_rd cmsis_hdr d 0 (0x1000 + 4 * i)) [0..<k] dc"

definition writes :: "nat \<Rightarrow> DC \<Rightarrow> DC" where
  "writes k dc = fold (\<lambda>i d. dc_q_dp_wr cmsis_hdr d 0 0) [0..<k] dc"

text \<open>
  The 64-byte queue holding one read of \<open>DP.IDR\<close>, on the carrier \<open>u\<close>;
  a carrier that takes the 4-byte packet and then fails the read; and one that
  takes it and answers with two bytes only.
\<close>

definition queued_read :: "usb_handle \<Rightarrow> DC" where
  "queued_read u = dc_q_dp_rd cmsis_hdr (dc64\<lparr>usb := u\<rparr>) 0 0x1000"

definition read_fails_usb :: usb_handle where
  "read_fails_usb = \<lparr>wr_script = [4], rd_script = [None], wr_log = []\<rparr>"

definition short_answer_usb :: usb_handle where
  "short_answer_usb = \<lparr>wr_script = [4], rd_script = [Some [0x05, 0x01]], wr_log = []\<rparr>"



subsection \<open>The contexts the code can hold\<close>


section \<open>Properties\<close>

subsection \<open>Auxiliary facts\<close>

lemma dc_q_clear_simps [simp]:
  "usb (dc_q_clear dc) = usb dc"
  "txnext (dc_q_clear dc) = 3"
  "rxnext (dc_q_clear dc) = 0"
  "txavail (dc_q_clear dc) = max_packet_size dc - 3"
  "rxavail (dc_q_clear dc) = max_packet_size dc - 3"
  "qerror (dc_q_clear dc) = DC_OK"
  "dp_select_cache (dc_q_clear dc) = INVALID"
  "cfg_mask (dc_q_clear dc) = INVALID"
  "max_packet_size (dc_q_clear dc) = max_packet_size dc"
  "txbuf (dc_q_clear dc) = (txbuf dc)(0 := DAP_Transfer, 1 := 0, 2 := 0)"
  "oob (dc_q_clear dc) = oob dc"
  "rxptr (dc_q_clear dc) = rxptr dc"
  "dp_select (dc_q_clear dc) = dp_select dc"
  "cfg_idle (dc_q_clear dc) = cfg_idle dc"
  "cfg_wait (dc_q_clear dc) = cfg_wait dc"
  "cfg_match (dc_q_clear dc) = cfg_match dc"
  "mem (dc_q_clear dc) = mem dc"
  by (simp_all add: dc_q_clear_def)

lemma usb_scatter [simp]: "usb (scatter dc f n) = usb dc"
proof -
  have "usb (fold (\<lambda>i d. d\<lparr>mem := (mem d)(rxptr d i := g i)\<rparr>) xs dc) = usb dc" for g xs
    by (induction xs arbitrary: dc) simp_all
  then show ?thesis by (simp add: scatter_def)
qed

lemma wr_log_usb_write [simp]: "wr_log (snd (usb_write u bs)) = wr_log u @ [bs]"
  by (simp add: usb_write_def split: list.splits)

lemma wr_log_usb_read [simp]: "wr_log (snd (usb_read u n)) = wr_log u"
  by (simp add: usb_read_def split: list.splits)

text \<open>Every \<open>dap_cmd\<close> hands its buffer to the carrier, whatever comes back.\<close>

lemma wr_log_dap_cmd: "wr_log (usb (snd (snd (dap_cmd dc tx rx n)))) = wr_log (usb dc) @ [tx]"
proof -
  obtain w u1 where w: "usb_write (usb dc) tx = (w, u1)" by (cases "usb_write (usb dc) tx")
  then have l1: "wr_log u1 = wr_log (usb dc) @ [tx]"
    using wr_log_usb_write [of "usb dc" tx] by simp
  obtain r u2 where r: "usb_read u1 n = (r, u2)" by (cases "usb_read u1 n")
  then have l2: "wr_log u2 = wr_log u1"
    using wr_log_usb_read [of u1 n] by simp
  show ?thesis
    using w r l1 l2 by (simp add: dap_cmd_def Let_def split: option.splits)
qed

text \<open>A queue with work and no latched error sends its packet.\<close>

lemma wr_log_dc_q_exec:
  assumes "qerror dc = DC_OK" "txbuf dc 2 \<noteq> 0"
  shows "wr_log (usb (snd (dc_q_exec h dc))) = wr_log (usb dc) @ [map (txbuf dc) [0..<txnext dc]]"
proof -
  let ?tx = "map (txbuf dc) [0..<txnext dc]"
  obtain w u1 where w: "usb_write (usb dc) ?tx = (w, u1)" by (cases "usb_write (usb dc) ?tx")
  then have l1: "wr_log u1 = wr_log (usb dc) @ [?tx]"
    using wr_log_usb_write [of "usb dc" ?tx] by simp
  obtain r u2 where r: "usb_read u1 (3 + rxnext dc * 4) = (r, u2)"
    by (cases "usb_read u1 (3 + rxnext dc * 4)")
  then have l2: "wr_log u2 = wr_log u1"
    using wr_log_usb_read [of u1 "3 + rxnext dc * 4"] by simp
  show ?thesis
    using assms w r l1 l2 by (simp add: dc_q_exec_def Let_def split: option.splits)
qed

lemma le_word_le_bytes:
  "le_word (le_bytes v ! 0) (le_bytes v ! 1) (le_bytes v ! 2) (le_bytes v ! 3) = v"
  unfolding le_word_def le_bytes_def
proof (rule bit_word_eqI)
  fix n assume "n < LENGTH(32)"
  then have n: "n < 32" by simp
  consider "n < 8" | "8 \<le> n" "n < 16" | "16 \<le> n" "n < 24" | "24 \<le> n" by linarith
  then show "bit (ucast ([ucast v, ucast (drop_bit 8 v), ucast (drop_bit 16 v), ucast (drop_bit 24 v)] ! 0 :: u8) OR
            push_bit 8 (ucast ([ucast v, ucast (drop_bit 8 v), ucast (drop_bit 16 v), ucast (drop_bit 24 v)] ! 1 :: u8)) OR
            push_bit 16 (ucast ([ucast v, ucast (drop_bit 8 v), ucast (drop_bit 16 v), ucast (drop_bit 24 v)] ! 2 :: u8)) OR
            push_bit 24 (ucast ([ucast v, ucast (drop_bit 8 v), ucast (drop_bit 16 v), ucast (drop_bit 24 v)] ! 3 :: u8)) :: u32) n = bit v n"
    using n by cases (auto simp: bit_simps)
qed

lemma parity_card: "builtin_parity x = card {i. i < 32 \<and> bit x i} mod 2"
  by (simp add: builtin_parity_def length_filter_conv_card cong: conj_cong)

text \<open>The queue after \<open>dc_q_init\<close> and one raw read, as \<open>dc_attach\<close> builds it.\<close>

lemma dc_q_raw_rd_fresh:
  fixes d1 :: DC and h req p
  defines "d \<equiv> dc_q_raw_rd h (dc_q_init d1) req p"
  shows "qerror d = DC_OK" "txbuf d 2 = 1" "txnext d = 4" "txbuf d 0 = DAP_Transfer"
    "txbuf d (Suc 0) = 0" "txbuf d 3 = ucast req" "usb d = usb d1"
  unfolding d_def
  by (simp_all add: dc_q_raw_rd_def dc_q_exec_def dc_q_init_def raw_rd_append_def
      tx_store_def rx_store_def Let_def)

lemma wr_log_idr_read:
  "wr_log (usb (snd (dc_q_exec h (dc_q_raw_rd h (dc_q_init d1) req p)))) =
     wr_log (usb d1) @ [[DAP_Transfer, 0, 1, ucast req]]"
proof -
  let ?d = "dc_q_raw_rd h (dc_q_init d1) req p"
  have "wr_log (usb (snd (dc_q_exec h ?d))) = wr_log (usb ?d) @ [map (txbuf ?d) [0..<txnext ?d]]"
    by (rule wr_log_dc_q_exec) (simp_all add: dc_q_raw_rd_fresh)
  moreover have "map (txbuf ?d) [0..<4] = [txbuf ?d 0, txbuf ?d 1, txbuf ?d 2, txbuf ?d 3]"
    by (simp add: upt_rec numeral_eq_Suc)
  ultimately show ?thesis
    by (simp add: dc_q_raw_rd_fresh)
qed

lemma multidrop_cmd_props:
  "length (multidrop_cmd tgt) = 54"
  "multidrop_cmd tgt ! 0 = DAP_SWD_Sequence"
  "multidrop_cmd tgt ! 1 = 8"
  "le_word (multidrop_cmd tgt ! 49) (multidrop_cmd tgt ! 50) (multidrop_cmd tgt ! 51) (multidrop_cmd tgt ! 52) = tgt"
  "multidrop_cmd tgt ! 53 = of_nat (builtin_parity tgt)"
  using le_word_le_bytes [of tgt]
  by (simp_all add: multidrop_cmd_def attach_cmd_def)

lemma multidrop_cmd_split:
  "take 49 (multidrop_cmd tgt) = (take 49 attach_cmd)[1 := 8]"
  "drop 49 (multidrop_cmd tgt) = le_bytes tgt @ [of_nat (builtin_parity tgt)]"
  by (simp_all add: multidrop_cmd_def attach_cmd_def le_bytes_def)

lemma parity_byte:
  "unat (multidrop_cmd tgt ! 53) = card {i. i < 32 \<and> bit tgt i} mod 2"
proof -
  have "card {i. i < 32 \<and> bit tgt i} mod 2 < 2" by simp
  then have "unat (of_nat (card {i. i < 32 \<and> bit tgt i} mod 2) :: u8) = card {i. i < 32 \<and> bit tgt i} mod 2"
    by (simp add: unat_of_nat)
  then show ?thesis by (simp add: multidrop_cmd_props parity_card)
qed

text \<open>The multidrop bytes of the specification's second scenario.\<close>

lemma multidrop_cmd_example:
  "drop 49 (multidrop_cmd 0x01002927) = [0x27, 0x29, 0x00, 0x01, 0]"
  by code_simp

lemma tx_store_fields [simp]:
  "txnext (tx_store dc i b) = txnext dc" "txavail (tx_store dc i b) = txavail dc"
  "rxavail (tx_store dc i b) = rxavail dc" "rxnext (tx_store dc i b) = rxnext dc"
  "rxptr (tx_store dc i b) = rxptr dc" "qerror (tx_store dc i b) = qerror dc"
  "usb (tx_store dc i b) = usb dc" "dp_select_cache (tx_store dc i b) = dp_select_cache dc"
  "dp_select (tx_store dc i b) = dp_select dc" "cfg_mask (tx_store dc i b) = cfg_mask dc"
  "max_packet_size (tx_store dc i b) = max_packet_size dc"
  "cfg_idle (tx_store dc i b) = cfg_idle dc" "cfg_wait (tx_store dc i b) = cfg_wait dc"
  "cfg_match (tx_store dc i b) = cfg_match dc"
  by (simp_all add: tx_store_def)

lemma tx_store_in [simp]:
  "i < 1024 \<Longrightarrow> txbuf (tx_store dc i b) = (txbuf dc)(i := b)"
  "i < 1024 \<Longrightarrow> oob (tx_store dc i b) = oob dc"
  by (simp_all add: tx_store_def)

lemma rx_store_fields [simp]:
  "txnext (rx_store dc i p) = txnext dc" "txavail (rx_store dc i p) = txavail dc"
  "rxavail (rx_store dc i p) = rxavail dc" "rxnext (rx_store dc i p) = rxnext dc"
  "txbuf (rx_store dc i p) = txbuf dc" "qerror (rx_store dc i p) = qerror dc"
  "usb (rx_store dc i p) = usb dc" "dp_select_cache (rx_store dc i p) = dp_select_cache dc"
  "dp_select (rx_store dc i p) = dp_select dc" "cfg_mask (rx_store dc i p) = cfg_mask dc"
  "max_packet_size (rx_store dc i p) = max_packet_size dc"
  by (simp_all add: rx_store_def)

lemma rx_store_in [simp]:
  "i < 256 \<Longrightarrow> rxptr (rx_store dc i p) = (rxptr dc)(i := p)"
  "i < 256 \<Longrightarrow> oob (rx_store dc i p) = oob dc"
  by (simp_all add: rx_store_def)

lemma raw_wr_append_fields:
  "txnext (raw_wr_append dc req v) = txnext dc + 5"
  "txavail (raw_wr_append dc req v) = txavail dc - 5"
  "rxavail (raw_wr_append dc req v) = rxavail dc"
  "rxnext (raw_wr_append dc req v) = rxnext dc"
  "rxptr (raw_wr_append dc req v) = rxptr dc"
  "qerror (raw_wr_append dc req v) = qerror dc"
  "usb (raw_wr_append dc req v) = usb dc"
  "dp_select_cache (raw_wr_append dc req v) = dp_select_cache dc"
  "dp_select (raw_wr_append dc req v) = dp_select dc"
  "cfg_mask (raw_wr_append dc req v) = cfg_mask dc"
  "max_packet_size (raw_wr_append dc req v) = max_packet_size dc"
  by (simp_all add: raw_wr_append_def Let_def)

lemma raw_wr_append_txbuf:
  assumes "txnext dc + 5 \<le> 1024"
  shows "oob (raw_wr_append dc req v) = oob dc"
    "txbuf (raw_wr_append dc req v) =
       (txbuf dc)(txnext dc := ucast req, txnext dc + 1 := le_bytes v ! 0,
          txnext dc + 2 := le_bytes v ! 1, txnext dc + 3 := le_bytes v ! 2,
          txnext dc + 4 := le_bytes v ! 3,
          2 := ((txbuf dc)(txnext dc := ucast req, txnext dc + 1 := le_bytes v ! 0,
          txnext dc + 2 := le_bytes v ! 1, txnext dc + 3 := le_bytes v ! 2,
          txnext dc + 4 := le_bytes v ! 3)) 2 + 1)"
  using assms by (simp_all add: raw_wr_append_def Let_def)

lemma raw_wr_append_bytes:
  assumes "txnext dc + 5 \<le> 1024" "3 \<le> txnext dc"
  shows "txbuf (raw_wr_append dc req v) 2 = txbuf dc 2 + 1"
    "[txbuf (raw_wr_append dc req v) (txnext dc), txbuf (raw_wr_append dc req v) (txnext dc + 1),
      txbuf (raw_wr_append dc req v) (txnext dc + 2), txbuf (raw_wr_append dc req v) (txnext dc + 3),
      txbuf (raw_wr_append dc req v) (txnext dc + 4)] = ucast req # le_bytes v"
    "i < txnext dc \<Longrightarrow> i \<noteq> 2 \<Longrightarrow> txbuf (raw_wr_append dc req v) i = txbuf dc i"
  using assms by (simp_all add: raw_wr_append_txbuf le_bytes_def)

lemma raw_rd_append_fields:
  "txnext (raw_rd_append dc req p) = txnext dc + 1"
  "rxnext (raw_rd_append dc req p) = rxnext dc + 1"
  "txavail (raw_rd_append dc req p) = txavail dc - 1"
  "rxavail (raw_rd_append dc req p) = rxavail dc - 4"
  "qerror (raw_rd_append dc req p) = qerror dc"
  "usb (raw_rd_append dc req p) = usb dc"
  "dp_select_cache (raw_rd_append dc req p) = dp_select_cache dc"
  "dp_select (raw_rd_append dc req p) = dp_select dc"
  "cfg_mask (raw_rd_append dc req p) = cfg_mask dc"
  "max_packet_size (raw_rd_append dc req p) = max_packet_size dc"
  by (simp_all add: raw_rd_append_def Let_def)

lemma raw_rd_append_arrays:
  assumes "txnext dc < 1024" "rxnext dc < 256"
  shows "oob (raw_rd_append dc req p) = oob dc"
    "rxptr (raw_rd_append dc req p) = (rxptr dc)(rxnext dc := p)"
    "txbuf (raw_rd_append dc req p) =
       (txbuf dc)(txnext dc := ucast req, 2 := ((txbuf dc)(txnext dc := ucast req)) 2 + 1)"
  using assms by (simp_all add: raw_rd_append_def Let_def)

lemma dc_q_raw_wr_room:
  "5 \<le> unat (txavail dc) \<Longrightarrow> dc_q_raw_wr h dc req v = raw_wr_append dc req v"
  by (simp add: dc_q_raw_wr_def word_less_nat_alt)

lemma dc_q_raw_rd_room:
  "1 \<le> unat (txavail dc) \<Longrightarrow> 4 \<le> unat (rxavail dc) \<Longrightarrow>
     dc_q_raw_rd h dc req p = raw_rd_append dc req p"
  by (simp add: dc_q_raw_rd_def word_less_nat_alt)

text \<open>With an error latched, a raw operation leaves it latched.\<close>

lemma dc_q_raw_wr_latched:
  "qerror dc \<noteq> DC_OK \<Longrightarrow> qerror (dc_q_raw_wr h dc req v) = qerror dc"
  by (simp add: dc_q_raw_wr_def dc_q_exec_def raw_wr_append_fields)

lemma dc_q_raw_rd_latched:
  "qerror dc \<noteq> DC_OK \<Longrightarrow> qerror (dc_q_raw_rd h dc req p) = qerror dc"
  by (simp add: dc_q_raw_rd_def dc_q_exec_def raw_rd_append_fields)

lemma unat_sub5:
  fixes x :: u32
  assumes "5 \<le> unat x"
  shows "unat (x - 5) = unat x - 5"
proof -
  have "(5::u32) \<le> x" using assms by (simp add: word_le_nat_alt)
  then show ?thesis by (simp add: unat_sub)
qed

lemma dc64_fields:
  "qerror dc64 = DC_OK" "txavail dc64 = 61" "rxavail dc64 = 61" "txnext dc64 = 3" "rxnext dc64 = 0"
  "dp_select_cache dc64 = 0xFFFFFFFF" "cfg_mask dc64 = 0xFFFFFFFF" "txbuf dc64 2 = 0"
  "wr_log (usb dc64) = []" "oob dc64 = False" "max_packet_size dc64 = 64" "dp_select dc64 = 0"
  by (simp_all add: dc64_def dc_q_init_def dc0_def calloc_DC_def INVALID_def dead_usb_def)


text \<open>The context that \<open>dc_create\<close> returns on the host \<open>host1\<close>.\<close>

lemma created_ok: "fst (dap_configure cmsis_hdr (calloc_DC host1 probe_usb)) = DC_OK"
  by code_simp

lemma dc_create_host1: "dc_create cmsis_hdr host1 = (DC_OK, Some created)"
  using created_ok
  by (simp add: dc_create_def created_def host1_def usb_connect_def split_beta)


lemma created_log:
  "drop 16 (wr_log (usb created)) = [[0x02, 0x01], [0x13, 0x00], [0x04, 8, 64, 0, 0, 0]]"
  unfolding created_def by code_simp

lemma created_fields:
  "qerror created = DC_OK" "cfg_idle created = 8" "cfg_wait created = 64" "cfg_match created = 0"
  "max_packet_size created = 1024" "oob created = False" "wr_script (usb created) = []"
  unfolding created_def by code_simp+

lemma clamp_idem [simp]: "clamp hi (clamp hi x) = clamp hi x"
  by (simp add: clamp_def)

lemma dap_cmd_state:
  "snd (snd (dap_cmd dc tx rx rxlen)) = dc\<lparr>usb := usb (snd (snd (dap_cmd dc tx rx rxlen)))\<rparr>"
  by (simp add: dap_cmd_def Let_def split: prod.splits option.splits)

lemma dap_cmd_std_state:
  "snd (dap_cmd_std dc io txlen rxlen) = dc\<lparr>usb := usb (snd (dap_cmd_std dc io txlen rxlen))\<rparr>"
proof -
  obtain r io' d where c: "dap_cmd dc (take txlen io) io rxlen = (r, io', d)"
    by (cases "dap_cmd dc (take txlen io) io rxlen")
  then have "d = dc\<lparr>usb := usb d\<rparr>"
    using dap_cmd_state [of dc "take txlen io" io rxlen] by simp
  then show ?thesis
    using c by (simp add: dap_cmd_std_def split: sum.splits)
qed






lemma unat_sub_le:
  fixes x :: u32
  assumes "k \<le> unat x"
  shows "unat (x - of_nat k) = unat x - k"
proof -
  have "unat x < 2 ^ 32" using unsigned_less [of x] by simp
  then have k: "unat (of_nat k :: u32) = k" using assms by (simp add: unat_of_nat)
  then have "(of_nat k :: u32) \<le> x" using assms by (simp add: word_le_nat_alt)
  then show ?thesis using k by (simp add: unat_sub)
qed

lemma unat_sub1:
  fixes x :: u32
  shows "1 \<le> unat x \<Longrightarrow> unat (x - 1) = unat x - 1"
  using unat_sub_le [of 1 x] by simp

lemma unat_sub4:
  fixes x :: u32
  shows "4 \<le> unat x \<Longrightarrow> unat (x - 4) = unat x - 4"
  using unat_sub_le [of 4 x] by simp

text \<open>A read or write of DP register 0 that fits is just the append.\<close>

lemma dc_q_dp_rd_0:
  assumes "qerror dc = DC_OK" "1 \<le> unat (txavail dc)" "4 \<le> unat (rxavail dc)"
  shows "dc_q_dp_rd h dc 0 p = raw_rd_append dc 2 p"
  using assms
  by (simp add: dc_q_dp_rd_def dc_q_dp_sel_def dc_q_raw_rd_room XFER_DP_def XFER_RD_def)

lemma dc_q_dp_wr_0:
  assumes "qerror dc = DC_OK" "5 \<le> unat (txavail dc)"
  shows "dc_q_dp_wr h dc 0 v = raw_wr_append dc 0 v"
  using assms
  by (simp add: dc_q_dp_wr_def dc_q_dp_sel_def dc_q_raw_wr_room XFER_DP_def XFER_WR_def)

lemma reads_Suc: "reads (Suc k) dc = dc_q_dp_rd cmsis_hdr (reads k dc) 0 (0x1000 + 4 * k)"
  by (simp add: reads_def)

lemma writes_Suc: "writes (Suc k) dc = dc_q_dp_wr cmsis_hdr (writes k dc) 0 0"
  by (simp add: writes_def)

lemma reads_fit:
  assumes "qerror dc = DC_OK" "3 \<le> txnext dc"
    and "k \<le> unat (txavail dc)" "4 * k \<le> unat (rxavail dc)"
    and "txnext dc + k \<le> 1024" "rxnext dc + k \<le> 256"
  shows "qerror (reads k dc) = DC_OK
    \<and> txnext (reads k dc) = txnext dc + k
    \<and> rxnext (reads k dc) = rxnext dc + k
    \<and> unat (txavail (reads k dc)) = unat (txavail dc) - k
    \<and> unat (rxavail (reads k dc)) = unat (rxavail dc) - 4 * k
    \<and> txbuf (reads k dc) 2 = txbuf dc 2 + of_nat k
    \<and> usb (reads k dc) = usb dc
    \<and> oob (reads k dc) = oob dc
    \<and> max_packet_size (reads k dc) = max_packet_size dc"
  using assms
proof (induction k)
  case 0
  then show ?case by (simp add: reads_def)
next
  case (Suc k)
  let ?s = "reads k dc"
  have ih: "qerror ?s = DC_OK" "txnext ?s = txnext dc + k" "rxnext ?s = rxnext dc + k"
    "unat (txavail ?s) = unat (txavail dc) - k" "unat (rxavail ?s) = unat (rxavail dc) - 4 * k"
    "txbuf ?s 2 = txbuf dc 2 + of_nat k" "usb ?s = usb dc" "oob ?s = oob dc"
    "max_packet_size ?s = max_packet_size dc"
    using Suc by simp_all
  have room: "1 \<le> unat (txavail ?s)" "4 \<le> unat (rxavail ?s)"
    using Suc.prems ih by simp_all
  have step: "reads (Suc k) dc = raw_rd_append ?s 2 (0x1000 + 4 * k)"
    using ih(1) room by (simp add: reads_Suc dc_q_dp_rd_0)
  have inb: "txnext ?s < 1024" "rxnext ?s < 256" "txnext ?s \<noteq> 2"
    using Suc.prems ih by simp_all
  show ?case
    using ih room inb
    by (simp add: step raw_rd_append_fields raw_rd_append_arrays unat_sub1 unat_sub4)
qed

lemma writes_fit:
  assumes "qerror dc = DC_OK" "3 \<le> txnext dc"
    and "5 * k \<le> unat (txavail dc)" "txnext dc + 5 * k \<le> 1024"
  shows "qerror (writes k dc) = DC_OK
    \<and> txnext (writes k dc) = txnext dc + 5 * k
    \<and> rxnext (writes k dc) = rxnext dc
    \<and> unat (txavail (writes k dc)) = unat (txavail dc) - 5 * k
    \<and> rxavail (writes k dc) = rxavail dc
    \<and> txbuf (writes k dc) 2 = txbuf dc 2 + of_nat k
    \<and> usb (writes k dc) = usb dc
    \<and> oob (writes k dc) = oob dc
    \<and> max_packet_size (writes k dc) = max_packet_size dc"
  using assms
proof (induction k)
  case 0
  then show ?case by (simp add: writes_def)
next
  case (Suc k)
  let ?s = "writes k dc"
  have ih: "qerror ?s = DC_OK" "txnext ?s = txnext dc + 5 * k" "rxnext ?s = rxnext dc"
    "unat (txavail ?s) = unat (txavail dc) - 5 * k" "rxavail ?s = rxavail dc"
    "txbuf ?s 2 = txbuf dc 2 + of_nat k" "usb ?s = usb dc" "oob ?s = oob dc"
    "max_packet_size ?s = max_packet_size dc"
    using Suc by simp_all
  have room: "5 \<le> unat (txavail ?s)"
    using Suc.prems ih by simp
  have step: "writes (Suc k) dc = raw_wr_append ?s 0 0"
    using ih(1) room by (simp add: writes_Suc dc_q_dp_wr_0)
  have inb: "txnext ?s + 5 \<le> 1024" "3 \<le> txnext ?s"
    using Suc.prems ih by simp_all
  show ?case
    using ih room inb raw_wr_append_bytes(1) [where dc="?s" and req=0 and v=0]
    by (simp add: step raw_wr_append_fields raw_wr_append_txbuf unat_sub5)
qed

lemma dc1024_fields:
  "qerror dc1024 = DC_OK" "txavail dc1024 = 1021" "rxavail dc1024 = 1021" "txnext dc1024 = 3"
  "rxnext dc1024 = 0" "txbuf dc1024 2 = 0" "usb dc1024 = usb created" "oob dc1024 = False"
  "max_packet_size dc1024 = 1024"
  by (simp_all add: dc1024_def dc_q_init_def created_fields)

text \<open>
  A queue whose count byte reads 0 is taken for empty by \<open>dc_q_exec\<close>, so a
  raw operation that finds no room appends all the same.
\<close>

lemma dc_q_exec_count_0:
  "qerror dc = DC_OK \<Longrightarrow> txbuf dc 2 = 0 \<Longrightarrow> dc_q_exec h dc = (DC_OK, dc)"
  by (simp add: dc_q_exec_def)

lemma qerror_update_same: "qerror dc = e \<Longrightarrow> dc\<lparr>qerror := e\<rparr> = dc"
  by (cases dc) simp

lemma dc_q_raw_rd_count_0:
  assumes "qerror dc = DC_OK" "txbuf dc 2 = 0"
  shows "dc_q_raw_rd h dc req p = raw_rd_append dc req p"
  using assms by (simp add: dc_q_raw_rd_def dc_q_exec_count_0 qerror_update_same)

lemma dc_q_raw_wr_count_0:
  assumes "qerror dc = DC_OK" "txbuf dc 2 = 0"
  shows "dc_q_raw_wr h dc req v = raw_wr_append dc req v"
  using assms by (simp add: dc_q_raw_wr_def dc_q_exec_count_0 qerror_update_same)

lemma raw_rd_append_oob: "256 \<le> rxnext dc \<Longrightarrow> oob (raw_rd_append dc req p)"
  by (simp add: raw_rd_append_def Let_def rx_store_def tx_store_def)

lemma raw_wr_append_oob: "1020 \<le> txnext dc \<Longrightarrow> oob (raw_wr_append dc req v)"
  by (simp add: raw_wr_append_def Let_def tx_store_def)

lemma reads_1: "reads (Suc 0) dc = dc_q_dp_rd cmsis_hdr dc 0 0x1000"
  by (simp add: reads_def)

lemma writes_1: "writes (Suc 0) dc = dc_q_dp_wr cmsis_hdr dc 0 0"
  by (simp add: writes_def)

lemma dp_rd_0_sel: "qerror dc = DC_OK \<Longrightarrow>
    dc_q_dp_rd h dc 0 p = dc_q_raw_rd h dc 2 p"
  by (simp add: dc_q_dp_rd_def dc_q_dp_sel_def XFER_DP_def XFER_RD_def)

lemma dp_wr_0_sel: "qerror dc = DC_OK \<Longrightarrow>
    dc_q_dp_wr h dc 0 v = dc_q_raw_wr h dc 0 v"
  by (simp add: dc_q_dp_wr_def dc_q_dp_sel_def XFER_DP_def XFER_WR_def)

text \<open>255 reads and one write on the 1024-byte queue: 256 requests, count byte 0.\<close>

lemma full_256:
  fixes s :: DC
  defines "s \<equiv> writes (Suc 0) (reads 255 dc1024)"
  shows "qerror s = DC_OK" "txnext s = 263" "rxnext s = 255" "unat (txavail s) = 761"
    "unat (rxavail s) = 1" "txbuf s 2 = 0" "usb s = usb created" "oob s = False"
proof -
  let ?r = "reads 255 dc1024"
  have r: "qerror ?r = DC_OK
    \<and> txnext ?r = txnext dc1024 + 255
    \<and> rxnext ?r = rxnext dc1024 + 255
    \<and> unat (txavail ?r) = unat (txavail dc1024) - 255
    \<and> unat (rxavail ?r) = unat (rxavail dc1024) - 4 * 255
    \<and> txbuf ?r 2 = txbuf dc1024 2 + of_nat 255
    \<and> usb ?r = usb dc1024
    \<and> oob ?r = oob dc1024
    \<and> max_packet_size ?r = max_packet_size dc1024"
    by (rule reads_fit) (simp_all add: dc1024_fields)
  have w: "qerror (writes 1 ?r) = DC_OK
    \<and> txnext (writes 1 ?r) = txnext ?r + 5 * 1
    \<and> rxnext (writes 1 ?r) = rxnext ?r
    \<and> unat (txavail (writes 1 ?r)) = unat (txavail ?r) - 5 * 1
    \<and> rxavail (writes 1 ?r) = rxavail ?r
    \<and> txbuf (writes 1 ?r) 2 = txbuf ?r 2 + of_nat 1
    \<and> usb (writes 1 ?r) = usb ?r
    \<and> oob (writes 1 ?r) = oob ?r
    \<and> max_packet_size (writes 1 ?r) = max_packet_size ?r"
    by (rule writes_fit) (use r in \<open>simp_all add: dc1024_fields\<close>)
  show "qerror s = DC_OK" "txnext s = 263" "rxnext s = 255" "unat (txavail s) = 761"
    "unat (rxavail s) = 1" "txbuf s 2 = 0" "usb s = usb created" "oob s = False"
    unfolding s_def using r w by (simp_all add: dc1024_fields)
qed

text \<open>65 reads and 191 writes on the 1024-byte queue: 256 requests, one byte left.\<close>

lemma full_tx:
  fixes s :: DC
  defines "s \<equiv> writes 191 (reads 65 dc1024)"
  shows "qerror s = DC_OK" "txnext s = 1023" "unat (txavail s) = 1" "txbuf s 2 = 0"
    "usb s = usb created" "oob s = False" "max_packet_size s = 1024"
proof -
  let ?r = "reads 65 dc1024"
  have r: "qerror ?r = DC_OK
    \<and> txnext ?r = txnext dc1024 + 65
    \<and> rxnext ?r = rxnext dc1024 + 65
    \<and> unat (txavail ?r) = unat (txavail dc1024) - 65
    \<and> unat (rxavail ?r) = unat (rxavail dc1024) - 4 * 65
    \<and> txbuf ?r 2 = txbuf dc1024 2 + of_nat 65
    \<and> usb ?r = usb dc1024
    \<and> oob ?r = oob dc1024
    \<and> max_packet_size ?r = max_packet_size dc1024"
    by (rule reads_fit) (simp_all add: dc1024_fields)
  have w: "qerror (writes 191 ?r) = DC_OK
    \<and> txnext (writes 191 ?r) = txnext ?r + 5 * 191
    \<and> rxnext (writes 191 ?r) = rxnext ?r
    \<and> unat (txavail (writes 191 ?r)) = unat (txavail ?r) - 5 * 191
    \<and> rxavail (writes 191 ?r) = rxavail ?r
    \<and> txbuf (writes 191 ?r) 2 = txbuf ?r 2 + of_nat 191
    \<and> usb (writes 191 ?r) = usb ?r
    \<and> oob (writes 191 ?r) = oob ?r
    \<and> max_packet_size (writes 191 ?r) = max_packet_size ?r"
    by (rule writes_fit) (use r in \<open>simp_all add: dc1024_fields\<close>)
  show "qerror s = DC_OK" "txnext s = 1023" "unat (txavail s) = 1" "txbuf s 2 = 0"
    "usb s = usb created" "oob s = False" "max_packet_size s = 1024"
    unfolding s_def using r w by (simp_all add: dc1024_fields)
qed

lemma queued_read_eq: "queued_read u = raw_rd_append (dc64\<lparr>usb := u\<rparr>) 2 0x1000"
  by (simp add: queued_read_def dc_q_dp_rd_0 dc64_fields)

lemma queued_read_fields:
  "qerror (queued_read u) = DC_OK" "txnext (queued_read u) = 4" "rxnext (queued_read u) = 1"
  "txavail (queued_read u) = 60" "rxavail (queued_read u) = 57" "txbuf (queued_read u) 2 = 1"
  "usb (queued_read u) = u"
  by (simp_all add: queued_read_eq raw_rd_append_fields raw_rd_append_arrays dc64_fields)

text \<open>
  The only results of \<open>dap_configure\<close> and of \<open>dc_create\<close>: the errors of
  the single commands are not among them.
\<close>

lemma dap_configure_result:
  "fst (dap_configure h dc) = DC_OK \<or> fst (dap_configure h dc) = DC_ERR_PROTOCOL"
  by (simp add: dap_configure_def Let_def)

lemma dc_create_result:
  "fst (dc_create h hs) = DC_OK \<or> fst (dc_create h hs) = DC_ERR_PROTOCOL
   \<or> fst (dc_create h hs) = DC_ERR_FAILED \<or> fst (dc_create h hs) = DC_ERR_OFFLINE"
  using dap_configure_result [of h "calloc_DC hs (the (usb_connect hs))"]
  by (auto simp: dc_create_def split_beta split: option.splits)

lemma dp_select_scatter [simp]: "dp_select (scatter dc f n) = dp_select dc"
proof -
  have "dp_select (fold (\<lambda>i d. d\<lparr>mem := (mem d)(rxptr d i := g i)\<rparr>) xs dc) = dp_select dc" for g xs
    by (induction xs arbitrary: dc) simp_all
  then show ?thesis by (simp add: scatter_def)
qed

lemma dp_select_dc_q_exec [simp]: "dp_select (snd (dc_q_exec h dc)) = dp_select dc"
  by (simp add: dc_q_exec_def Let_def split: prod.splits option.splits)

lemma dp_select_raw_wr [simp]: "dp_select (dc_q_raw_wr h dc r v) = dp_select dc"
  by (simp add: dc_q_raw_wr_def raw_wr_append_fields split_beta)

lemma dp_select_raw_rd [simp]: "dp_select (dc_q_raw_rd h dc r p) = dp_select dc"
  by (simp add: dc_q_raw_rd_def raw_rd_append_fields split_beta)

lemma dp_select_sel [simp]:
  "dp_select (dc_q_dp_sel h dc a) = dp_select dc"
  "dp_select (dc_q_ap_sel h dc a) = dp_select dc"
  by (simp_all add: dc_q_dp_sel_def dc_q_ap_sel_def Let_def)

lemma dp_select_q_ops [simp]:
  "dp_select (dc_q_dp_rd h dc a p) = dp_select dc"
  "dp_select (dc_q_dp_wr h dc a v) = dp_select dc"
  "dp_select (dc_q_ap_rd h dc a p) = dp_select dc"
  "dp_select (dc_q_ap_wr h dc a v) = dp_select dc"
  "dp_select (dc_q_set_mask h dc v) = dp_select dc"
  "dp_select (dc_q_ap_match h dc a v) = dp_select dc"
  "dp_select (dc_q_dp_match h dc a v) = dp_select dc"
  "dp_select (dc_q_init dc) = dp_select dc"
  by (simp_all add: dc_q_dp_rd_def dc_q_dp_wr_def dc_q_ap_rd_def dc_q_ap_wr_def
      dc_q_set_mask_def dc_q_ap_match_def dc_q_dp_match_def dc_q_init_def)

lemma dp_select_dap_cmd [simp]: "dp_select (snd (snd (dap_cmd dc tx rx n))) = dp_select dc"
  by (simp add: dap_cmd_def Let_def split: prod.splits option.splits)

lemma dp_select_dap_cmd_std [simp]: "dp_select (snd (dap_cmd_std dc io txlen rxlen)) = dp_select dc"
proof -
  have "dp_select (dc\<lparr>usb := u\<rparr>) = dp_select dc" for u by simp
  then show ?thesis using dap_cmd_std_state [of dc io txlen rxlen] by metis
qed

lemma dp_select_dap_simple [simp]:
  "dp_select (snd (dap_connect h dc)) = dp_select dc"
  "dp_select (snd (dap_swd_configure dc cfg)) = dp_select dc"
  "dp_select (snd (dap_xfer_config dc i w m)) = dp_select dc"
  "dp_select (dc_set_match_retry dc v) = dp_select dc"
  by (simp_all add: dap_connect_def dap_swd_configure_def dap_xfer_config_def
      dc_set_match_retry_def Let_def)

lemma dp_select_dap_get_info [simp]:
  "dp_select (snd (dap_get_info dc di mn mx)) = dp_select dc"
  by (simp add: dap_get_info_def Let_def split: prod.splits option.splits)


lemma dp_select_attach [simp]:
  "dp_select (snd (dc_attach h dc flags tgt p)) = dp_select dc"
  by (simp add: dc_attach_def Let_def)




























subsection \<open>The status decoder\<close>

text \<open>
  C8. The status decoder maps the SWD status byte in this order: a set
  ProtocolError bit gives SwdParity whatever the other bits are; otherwise the
  ACK field decides, WAIT giving Timeout, FAULT giving SwdFault, all ACK bits set
  giving SwdSilent and any value other than these and OK giving SwdBogus; with
  ACK equal to OK, a set ValueMismatch bit gives Match, and a clear one gives Ok.
  The case labels of the \<open>switch\<close> are pairwise different, as C demands of
  them.
\<close>

theorem dc_decode_status_order:
  assumes "distinct [RSP_ACK_OK h, RSP_ACK_WAIT h, RSP_ACK_FAULT h, RSP_ACK_MASK h]"
  shows "(n AND RSP_ProtocolError h \<noteq> 0 \<longrightarrow> dc_decode_status h n = DC_ERR_SWD_PARITY)
    \<and> (n AND RSP_ProtocolError h = 0 \<longrightarrow>
         (n AND RSP_ACK_MASK h = RSP_ACK_WAIT h \<longrightarrow> dc_decode_status h n = DC_ERR_TIMEOUT)
       \<and> (n AND RSP_ACK_MASK h = RSP_ACK_FAULT h \<longrightarrow> dc_decode_status h n = DC_ERR_SWD_FAULT)
       \<and> (n AND RSP_ACK_MASK h = RSP_ACK_MASK h \<longrightarrow> dc_decode_status h n = DC_ERR_SWD_SILENT)
       \<and> (n AND RSP_ACK_MASK h \<notin> {RSP_ACK_OK h, RSP_ACK_WAIT h, RSP_ACK_FAULT h, RSP_ACK_MASK h}
            \<longrightarrow> dc_decode_status h n = DC_ERR_SWD_BOGUS)
       \<and> (n AND RSP_ACK_MASK h = RSP_ACK_OK h \<and> n AND RSP_ValueMismatch h \<noteq> 0
            \<longrightarrow> dc_decode_status h n = DC_ERR_MATCH)
       \<and> (n AND RSP_ACK_MASK h = RSP_ACK_OK h \<and> n AND RSP_ValueMismatch h = 0
            \<longrightarrow> dc_decode_status h n = DC_OK))"
  using assms by (auto simp: dc_decode_status_def Let_def)

theorem dc_decode_status_order_witness:
  "distinct [RSP_ACK_OK cmsis_hdr, RSP_ACK_WAIT cmsis_hdr, RSP_ACK_FAULT cmsis_hdr,
      RSP_ACK_MASK cmsis_hdr]
   \<and> dc_decode_status cmsis_hdr 0x0A = DC_ERR_SWD_PARITY
   \<and> dc_decode_status cmsis_hdr 0x02 = DC_ERR_TIMEOUT
   \<and> dc_decode_status cmsis_hdr 0x04 = DC_ERR_SWD_FAULT
   \<and> dc_decode_status cmsis_hdr 0x17 = DC_ERR_SWD_SILENT
   \<and> dc_decode_status cmsis_hdr 0x03 = DC_ERR_SWD_BOGUS
   \<and> dc_decode_status cmsis_hdr 0x11 = DC_ERR_MATCH
   \<and> dc_decode_status cmsis_hdr 0x01 = DC_OK"
  using dc_decode_status_order [of cmsis_hdr "0x0A"]
    dc_decode_status_order [of cmsis_hdr "0x02"]
    dc_decode_status_order [of cmsis_hdr "0x04"]
    dc_decode_status_order [of cmsis_hdr "0x17"]
    dc_decode_status_order [of cmsis_hdr "0x03"]
    dc_decode_status_order [of cmsis_hdr "0x11"]
    dc_decode_status_order [of cmsis_hdr "0x01"]
  by (simp add: cmsis_hdr_def)

subsection \<open>The attach sequence\<close>

text \<open>
  C7. With the multidrop flag, \<open>dc_attach\<close> sends one 54-byte
  \<open>DAP_SWD_Sequence\<close> command: its count field at offset 1 is 8, its first 49
  bytes are otherwise those of the template, bytes 49..52 are the target ID in
  little-endian order, and byte 53 is the even-parity bit of the 32 target-ID
  bits (0 or 1, making the number of set bits even). Without the flag it sends
  exactly the first 45 bytes of the template, whose count field is 5. In both
  cases the only other packet sent is the \<open>DAP_Transfer\<close> with the one read of
  \<open>DP.IDR\<close>, and this holds whatever the carrier answers.
\<close>

theorem dc_attach_sequence:
  "(flags AND DC_MULTIDROP h \<noteq> 0 \<longrightarrow>
      wr_log (usb (snd (dc_attach h dc flags tgt idcode))) =
        wr_log (usb dc) @ [multidrop_cmd tgt, [DAP_Transfer, 0, 1, 2]]
      \<and> length (multidrop_cmd tgt) = 54
      \<and> multidrop_cmd tgt ! 0 = DAP_SWD_Sequence
      \<and> multidrop_cmd tgt ! 1 = 8
      \<and> take 49 (multidrop_cmd tgt) = (take 49 attach_cmd)[1 := 8]
      \<and> le_word (multidrop_cmd tgt ! 49) (multidrop_cmd tgt ! 50)
           (multidrop_cmd tgt ! 51) (multidrop_cmd tgt ! 52) = tgt
      \<and> unat (multidrop_cmd tgt ! 53) < 2
      \<and> even (card {i. i < 32 \<and> bit tgt i} + unat (multidrop_cmd tgt ! 53)))
   \<and> (flags AND DC_MULTIDROP h = 0 \<longrightarrow>
      wr_log (usb (snd (dc_attach h dc flags tgt idcode))) =
        wr_log (usb dc) @ [take 45 attach_cmd, [DAP_Transfer, 0, 1, 2]]
      \<and> length (take 45 attach_cmd) = 45
      \<and> take 45 attach_cmd ! 0 = DAP_SWD_Sequence
      \<and> take 45 attach_cmd ! 1 = 5)"
proof -
  have req: "(ucast (XFER_DP OR XFER_RD OR XFER_00) :: u8) = 2"
    by (simp add: XFER_DP_def XFER_RD_def XFER_00_def)
  have md: "flags AND DC_MULTIDROP h \<noteq> 0 \<Longrightarrow>
      wr_log (usb (snd (dc_attach h dc flags tgt idcode))) =
        wr_log (usb dc) @ [multidrop_cmd tgt, [DAP_Transfer, 0, 1, 2]]"
    by (simp add: dc_attach_def Let_def wr_log_idr_read wr_log_dap_cmd req multidrop_cmd_props)
  have sd: "flags AND DC_MULTIDROP h = 0 \<Longrightarrow>
      wr_log (usb (snd (dc_attach h dc flags tgt idcode))) =
        wr_log (usb dc) @ [take 45 attach_cmd, [DAP_Transfer, 0, 1, 2]]"
    by (simp add: dc_attach_def Let_def wr_log_idr_read wr_log_dap_cmd req)
  have par: "unat (multidrop_cmd tgt ! 53) < 2"
    "even (card {i. i < 32 \<and> bit tgt i} + unat (multidrop_cmd tgt ! 53))"
    by (simp_all add: parity_byte)
  have tmpl: "length (take 45 attach_cmd) = 45" "take 45 attach_cmd ! 0 = DAP_SWD_Sequence"
    "take 45 attach_cmd ! 1 = 5"
    by (simp_all add: attach_cmd_def)
  show ?thesis
    using md sd par tmpl multidrop_cmd_props [of tgt] multidrop_cmd_split(1) [of tgt]
    by simp
qed

theorem dc_attach_sequence_witness:
  "(1 :: u32) AND DC_MULTIDROP cmsis_hdr \<noteq> 0
   \<and> (0 :: u32) AND DC_MULTIDROP cmsis_hdr = 0
   \<and> wr_log (usb (snd (dc_attach cmsis_hdr dc0 1 0x01002927 0))) =
        wr_log (usb dc0) @ [multidrop_cmd 0x01002927, [DAP_Transfer, 0, 1, 2]]
   \<and> multidrop_cmd 0x01002927 ! 1 = 8
   \<and> le_word (multidrop_cmd 0x01002927 ! 49) (multidrop_cmd 0x01002927 ! 50)
           (multidrop_cmd 0x01002927 ! 51) (multidrop_cmd 0x01002927 ! 52) = 0x01002927
   \<and> even (card {i. i < 32 \<and> bit (0x01002927 :: u32) i} + unat (multidrop_cmd 0x01002927 ! 53))
   \<and> wr_log (usb (snd (dc_attach cmsis_hdr dc0 0 0x01002927 0))) =
        wr_log (usb dc0) @ [take 45 attach_cmd, [DAP_Transfer, 0, 1, 2]]
   \<and> take 45 attach_cmd ! 1 = 5"
  using dc_attach_sequence [of 1 cmsis_hdr dc0 "0x01002927" 0]
    dc_attach_sequence [of 0 cmsis_hdr dc0 "0x01002927" 0]
  by (simp add: cmsis_hdr_def)

subsection \<open>Context creation\<close>

text \<open>
  C5 fails on the code. \<open>dap_configure\<close> drops the results of
  \<open>dap_connect\<close>, \<open>dap_swd_configure\<close> and \<open>dap_xfer_config\<close>. On the host
  \<open>host1\<close> the probe rejects all three commands with status \<open>0xFF\<close>, which
  \<open>dap_connect\<close> reports as \<open>DC_ERR_REMOTE\<close>, and \<open>dc_create\<close> still returns
  \<open>DC_OK\<close> with a context, after sending the three commands. On \<open>host0\<close>
  every transfer fails, and \<open>dc_create\<close> returns \<open>DC_OK\<close> with a context as
  well. Whatever the probe and the host do, \<open>dc_create\<close> returns \<open>DC_OK\<close>,
  \<open>DC_ERR_PROTOCOL\<close> (the packet limits), \<open>DC_ERR_FAILED\<close> (no memory) or
  \<open>DC_ERR_OFFLINE\<close> (no probe), never the error of a command.
\<close>

theorem dc_create_ignores_command_failure:
  "(fst (dc_create h hs) = DC_OK \<or> fst (dc_create h hs) = DC_ERR_PROTOCOL
      \<or> fst (dc_create h hs) = DC_ERR_FAILED \<or> fst (dc_create h hs) = DC_ERR_OFFLINE)
   \<and> dc_create cmsis_hdr host1 = (DC_OK, Some created)
   \<and> drop 16 (wr_log (usb created)) = [[0x02, 0x01], [0x13, 0x00], [0x04, 8, 64, 0, 0, 0]]
   \<and> fst (dap_connect cmsis_hdr (dc0\<lparr>usb := \<lparr>wr_script = [2], rd_script = [Some [0x02, 0xFF]], wr_log = []\<rparr>\<rparr>))
       = DC_ERR_REMOTE
   \<and> fst (dc_create cmsis_hdr host0) = DC_OK
   \<and> snd (dc_create cmsis_hdr host0) \<noteq> None"
proof -
  have "fst (dap_connect cmsis_hdr (dc0\<lparr>usb := \<lparr>wr_script = [2], rd_script = [Some [0x02, 0xFF]], wr_log = []\<rparr>\<rparr>))
       = DC_ERR_REMOTE"
    by code_simp
  moreover have "fst (dc_create cmsis_hdr host0) = DC_OK" "snd (dc_create cmsis_hdr host0) \<noteq> None"
    by code_simp+
  ultimately show ?thesis
    using dc_create_host1 created_log dc_create_result [of h hs] by simp
qed

subsection \<open>The request count of a packet\<close>

text \<open>
  C4 fails on the code. Nothing in \<open>dc_q_raw_rd\<close> or \<open>dc_q_raw_wr\<close> looks
  at the number of queued requests: they flush on the two byte budgets only. On
  the context \<open>dc_create\<close> returns for a probe with 1024-byte packets, after
  \<open>dc_q_init\<close>, 255 reads and 2 writes of DP register 0 all fit the budgets:
  no packet is sent, the cursor stands after 257 request records, and the count
  byte \<open>txbuf[2]\<close> has wrapped to 1.
  After the 256th request the count byte reads 0, and \<open>dc_q_exec\<close> takes the
  full queue for an empty one: it returns \<open>DC_OK\<close> and changes nothing.
\<close>

theorem count_byte_wraps:
  "dc_create cmsis_hdr host1 = (DC_OK, Some created)
   \<and> max_packet_size created = 1024
   \<and> qerror (writes 2 (reads 255 dc1024)) = DC_OK
   \<and> usb (writes 2 (reads 255 dc1024)) = usb created
   \<and> txnext (writes 2 (reads 255 dc1024)) = 3 + 255 * 1 + 2 * 5
   \<and> txbuf (writes 2 (reads 255 dc1024)) 2 = 1
   \<and> dc_q_exec cmsis_hdr (writes 1 (reads 255 dc1024)) = (DC_OK, writes 1 (reads 255 dc1024))"
proof -
  let ?r = "reads 255 dc1024"
  have r: "qerror ?r = DC_OK
    \<and> txnext ?r = txnext dc1024 + 255
    \<and> rxnext ?r = rxnext dc1024 + 255
    \<and> unat (txavail ?r) = unat (txavail dc1024) - 255
    \<and> unat (rxavail ?r) = unat (rxavail dc1024) - 4 * 255
    \<and> txbuf ?r 2 = txbuf dc1024 2 + of_nat 255
    \<and> usb ?r = usb dc1024
    \<and> oob ?r = oob dc1024
    \<and> max_packet_size ?r = max_packet_size dc1024"
    by (rule reads_fit) (simp_all add: dc1024_fields)
  have w: "qerror (writes 2 ?r) = DC_OK
    \<and> txnext (writes 2 ?r) = txnext ?r + 5 * 2
    \<and> rxnext (writes 2 ?r) = rxnext ?r
    \<and> unat (txavail (writes 2 ?r)) = unat (txavail ?r) - 5 * 2
    \<and> rxavail (writes 2 ?r) = rxavail ?r
    \<and> txbuf (writes 2 ?r) 2 = txbuf ?r 2 + of_nat 2
    \<and> usb (writes 2 ?r) = usb ?r
    \<and> oob (writes 2 ?r) = oob ?r
    \<and> max_packet_size (writes 2 ?r) = max_packet_size ?r"
    by (rule writes_fit) (use r in \<open>simp_all add: dc1024_fields\<close>)
  have "dc_q_exec cmsis_hdr (writes 1 ?r) = (DC_OK, writes 1 ?r)"
    by (rule dc_q_exec_count_0) (simp_all add: full_256)
  then show ?thesis
    using r w dc_create_host1 by (simp add: dc1024_fields created_fields)
qed

subsection \<open>Bounds of the queue arrays\<close>

text \<open>
  C10 fails on the code, by the same wrap of the count byte. On the context
  \<open>dc_create\<close> returns for a probe with 1024-byte packets, after
  \<open>dc_q_init\<close>: after 65 reads and 191 writes the queue holds 256
  requests, one byte of budget is left and the count byte reads 0; the next
  write finds no room, \<open>dc_q_exec\<close> takes the queue for empty and flushes
  nothing, and the five bytes are stored at offsets 1023..1027, past the end of
  \<open>txbuf\<close>. After 255 reads and one write the count byte reads 0 as well; the
  next read fills slot 255, the 256th slot of \<open>rxptr\<close>, and the one after it
  is stored past the end of \<open>rxptr\<close>. No packet is sent in between.
\<close>

theorem queue_overruns_buffers:
  "dc_create cmsis_hdr host1 = (DC_OK, Some created)
   \<and> max_packet_size dc1024 = 1024
   \<and> \<not> oob (writes 191 (reads 65 dc1024))
   \<and> usb (writes 1 (writes 191 (reads 65 dc1024))) = usb created
   \<and> txnext (writes 1 (writes 191 (reads 65 dc1024))) = 1028
   \<and> oob (writes 1 (writes 191 (reads 65 dc1024)))
   \<and> \<not> oob (writes 1 (reads 255 dc1024))
   \<and> usb (reads 1 (reads 1 (writes 1 (reads 255 dc1024)))) = usb created
   \<and> rxnext (reads 1 (writes 1 (reads 255 dc1024))) = 256
   \<and> oob (reads 1 (reads 1 (writes 1 (reads 255 dc1024))))"
proof -
  let ?t = "writes 191 (reads 65 dc1024)"
  have t: "writes (Suc 0) ?t = raw_wr_append ?t 0 0"
    by (simp add: writes_1 dp_wr_0_sel dc_q_raw_wr_count_0 full_tx)
  have tx: "usb (writes (Suc 0) ?t) = usb created" "txnext (writes (Suc 0) ?t) = 1028" "oob (writes (Suc 0) ?t)"
    by (simp_all add: t raw_wr_append_fields raw_wr_append_oob full_tx)
  let ?s = "writes (Suc 0) (reads 255 dc1024)"
  have s1: "reads (Suc 0) ?s = raw_rd_append ?s 2 0x1000"
    by (simp add: reads_1 dp_rd_0_sel dc_q_raw_rd_count_0 full_256)
  have a: "rxavail ?s = 1"
    using full_256(5) by (metis One_nat_def unat_1 word_unat_eq_iff)
  have f1: "qerror (reads (Suc 0) ?s) = DC_OK" "rxnext (reads (Suc 0) ?s) = 256"
    "unat (txavail (reads (Suc 0) ?s)) = 760" "unat (rxavail (reads (Suc 0) ?s)) = 4294967293"
    "usb (reads (Suc 0) ?s) = usb created"
    by (simp_all add: s1 raw_rd_append_fields full_256 unat_sub1 a)
  have s2: "reads (Suc 0) (reads (Suc 0) ?s) = raw_rd_append (reads (Suc 0) ?s) 2 0x1000"
    using f1 by (simp add: reads_1 dc_q_dp_rd_0)
  have rx: "oob (reads (Suc 0) (reads (Suc 0) ?s))"
    "usb (reads (Suc 0) (reads (Suc 0) ?s)) = usb created"
    by (simp_all add: s2 raw_rd_append_oob raw_rd_append_fields f1)
  show ?thesis
    using tx rx f1 dc_create_host1 by (simp add: dc1024_fields full_tx full_256)
qed

subsection \<open>Invalid addresses\<close>

text \<open>
  C1 fails on the code. \<open>dc_q_dp_sel\<close> and \<open>dc_q_ap_sel\<close> latch
  \<open>DC_ERR_FAILED\<close>, the code of an unspecified internal failure, not the
  invalid-argument code; and their callers go on to the raw operation without
  looking at the latch again. On the empty 64-byte queue, a read of the DP
  address \<open>0x01\<close> advances both cursors and the count byte by one, and a write
  to the AP address \<open>0x00010000\<close> advances the write cursor by five and the
  count byte by one.
\<close>

theorem invalid_address_still_enqueued:
  "qerror (dc_q_dp_rd cmsis_hdr dc64 0x01 0x1000) = DC_ERR_FAILED
   \<and> txnext (dc_q_dp_rd cmsis_hdr dc64 0x01 0x1000) = txnext dc64 + 1
   \<and> rxnext (dc_q_dp_rd cmsis_hdr dc64 0x01 0x1000) = rxnext dc64 + 1
   \<and> txbuf (dc_q_dp_rd cmsis_hdr dc64 0x01 0x1000) 2 = txbuf dc64 2 + 1
   \<and> qerror (dc_q_ap_wr cmsis_hdr dc64 0x00010000 0) = DC_ERR_FAILED
   \<and> txnext (dc_q_ap_wr cmsis_hdr dc64 0x00010000 0) = txnext dc64 + 5
   \<and> txbuf (dc_q_ap_wr cmsis_hdr dc64 0x00010000 0) 2 = txbuf dc64 2 + 1
   \<and> DC_ERR_FAILED \<noteq> DC_ERR_INVALID_ARG"
proof -
  let ?e = "dc64\<lparr>qerror := DC_ERR_FAILED\<rparr>"
  have rd: "dc_q_dp_rd cmsis_hdr dc64 0x01 0x1000 = raw_rd_append ?e (XFER_DP OR XFER_RD OR (0x01 AND 0x0C)) 0x1000"
    by (simp add: dc_q_dp_rd_def dc_q_dp_sel_def dc_q_raw_rd_room dc64_fields)
  have wr: "dc_q_ap_wr cmsis_hdr dc64 0x00010000 0 = raw_wr_append ?e (XFER_AP OR XFER_WR OR (0x00010000 AND 0x0C)) 0"
    by (simp add: dc_q_ap_wr_def dc_q_ap_sel_def dc_q_raw_wr_room dc64_fields)
  show ?thesis
    by (simp add: rd wr raw_rd_append_fields raw_rd_append_arrays raw_wr_append_fields
        raw_wr_append_txbuf dc64_fields)
qed

subsection \<open>The queue after execution\<close>

text \<open>
  C2 fails on the code. \<open>dc_q_exec\<close> clears the queue on three of its
  paths (a latched error, a decoded status, success) and returns early, without
  clearing, on the others. With one read queued on the 64-byte queue: when the
  USB write fails it returns \<open>DC_ERR_IO\<close>, when the USB read fails it returns
  \<open>DC_ERR_IO\<close>, and when the answer has fewer than three bytes it returns
  \<open>DC_ERR_PROTOCOL\<close>; each time the write cursor stays at offset 4, the count
  byte at 1 and the response cursor at 1, and the budgets stay at 60 and 57
  instead of going back to 61.
\<close>

theorem dc_q_exec_keeps_queue_on_failure:
  "fst (dc_q_exec cmsis_hdr (queued_read dead_usb)) = DC_ERR_IO
   \<and> txnext (snd (dc_q_exec cmsis_hdr (queued_read dead_usb))) = 4
   \<and> txbuf (snd (dc_q_exec cmsis_hdr (queued_read dead_usb))) 2 = 1
   \<and> rxnext (snd (dc_q_exec cmsis_hdr (queued_read dead_usb))) = 1
   \<and> txavail (snd (dc_q_exec cmsis_hdr (queued_read dead_usb))) = 60
   \<and> rxavail (snd (dc_q_exec cmsis_hdr (queued_read dead_usb))) = 57
   \<and> fst (dc_q_exec cmsis_hdr (queued_read read_fails_usb)) = DC_ERR_IO
   \<and> txnext (snd (dc_q_exec cmsis_hdr (queued_read read_fails_usb))) = 4
   \<and> txbuf (snd (dc_q_exec cmsis_hdr (queued_read read_fails_usb))) 2 = 1
   \<and> rxnext (snd (dc_q_exec cmsis_hdr (queued_read read_fails_usb))) = 1
   \<and> fst (dc_q_exec cmsis_hdr (queued_read short_answer_usb)) = DC_ERR_PROTOCOL
   \<and> txnext (snd (dc_q_exec cmsis_hdr (queued_read short_answer_usb))) = 4
   \<and> txbuf (snd (dc_q_exec cmsis_hdr (queued_read short_answer_usb))) 2 = 1
   \<and> rxnext (snd (dc_q_exec cmsis_hdr (queued_read short_answer_usb))) = 1"
proof -
  have a: "dc_q_exec cmsis_hdr (queued_read dead_usb) =
      (DC_ERR_IO, queued_read dead_usb\<lparr>usb := snd (usb_write dead_usb (map (txbuf (queued_read dead_usb)) [0..<4]))\<rparr>)"
    by (simp add: dc_q_exec_def queued_read_fields usb_write_def dead_usb_def)
  have b: "dc_q_exec cmsis_hdr (queued_read read_fails_usb) =
      (DC_ERR_IO, queued_read read_fails_usb\<lparr>usb :=
         snd (usb_read (snd (usb_write read_fails_usb (map (txbuf (queued_read read_fails_usb)) [0..<4]))) 7)\<rparr>)"
    by (simp add: dc_q_exec_def queued_read_fields usb_write_def usb_read_def read_fails_usb_def)
  have c: "dc_q_exec cmsis_hdr (queued_read short_answer_usb) =
      (DC_ERR_PROTOCOL, queued_read short_answer_usb\<lparr>usb :=
         snd (usb_read (snd (usb_write short_answer_usb (map (txbuf (queued_read short_answer_usb)) [0..<4]))) 7)\<rparr>)"
    by (simp add: dc_q_exec_def queued_read_fields usb_write_def usb_read_def short_answer_usb_def)
  show ?thesis
    by (simp add: a b c queued_read_fields)
qed

subsection \<open>The DP bank selection\<close>




subsection \<open>Value match on a DP register\<close>




subsection \<open>Mirrored configuration values\<close>




end
